theory Spec2Isabelle
  imports Complex_Main
begin

section \<open>Python values\<close>

text \<open>
  The conversational pipeline of \<^verbatim>\<open>src/agentic\<close> passes one dictionary (the graph state)
  through a sequence of nodes. Entities, goals and model replies are dynamically typed, so
  they are embedded as a datatype of Python values. A finite float is represented by the
  real number it denotes; the two infinities and NaN are separate constructors. Rounding
  only happens inside the conversions and arithmetic of the Python runtime, which are
  parameters of the model (record \<open>runtime\<close> below). Text is ASCII: a \<open>string\<close> is the
  list of the characters of a Python \<^verbatim>\<open>str\<close>.
\<close>

datatype pyfloat = Fin real | PosInf | NegInf | NaN

datatype pyval =
    PNone
  | PBool bool
  | PInt int
  | PFloat pyfloat
  | PStr string
  | PList "pyval list"
  | PDict "(string \<times> pyval) list"

datatype error =
    AttributeError
  | TypeError
  | ValueError
  | OverflowError
  | ZeroDivisionError
  | KeyError
  | CollaboratorError

text \<open>Sequencing of steps that may raise: the first exception ends the computation.\<close>

definition ebind :: "error + 'a \<Rightarrow> ('a \<Rightarrow> error + 'b) \<Rightarrow> error + 'b" where
  "ebind m f = (case m of Inl e \<Rightarrow> Inl e | Inr x \<Rightarrow> f x)"

text \<open>Python truthiness (\<^verbatim>\<open>if x:\<close>, \<^verbatim>\<open>not x\<close>, \<^verbatim>\<open>x or y\<close>).\<close>

fun truthy :: "pyval \<Rightarrow> bool" where
  "truthy PNone = False"
| "truthy (PBool b) = b"
| "truthy (PInt i) = (i \<noteq> 0)"
| "truthy (PFloat f) = (f \<noteq> Fin 0)"
| "truthy (PStr s) = (s \<noteq> [])"
| "truthy (PList xs) = (xs \<noteq> [])"
| "truthy (PDict d) = (d \<noteq> [])"

text \<open>
  Dictionaries keep insertion order: \<^verbatim>\<open>d[k] = v\<close> replaces the value of an existing key in
  place and appends a new key at the end.
\<close>

fun dict_set :: "(string \<times> 'v) list \<Rightarrow> string \<Rightarrow> 'v \<Rightarrow> (string \<times> 'v) list" where
  "dict_set [] k v = [(k, v)]"
| "dict_set ((k', v') # d) k v = (if k' = k then (k, v) # d else (k', v') # dict_set d k v)"

definition dict_get :: "(string \<times> pyval) list \<Rightarrow> string \<Rightarrow> pyval" where
  "dict_get d k = (case map_of d k of None \<Rightarrow> PNone | Some v \<Rightarrow> v)"

definition dict_get_default :: "(string \<times> pyval) list \<Rightarrow> string \<Rightarrow> pyval \<Rightarrow> pyval" where
  "dict_get_default d k dflt = (case map_of d k of None \<Rightarrow> dflt | Some v \<Rightarrow> v)"

text \<open>\<^verbatim>\<open>x.get(k)\<close> on an arbitrary value: only a dict has the method.\<close>

definition attr_get :: "pyval \<Rightarrow> string \<Rightarrow> error + pyval" where
  "attr_get x k = (case x of PDict d \<Rightarrow> Inr (dict_get d k) | _ \<Rightarrow> Inl AttributeError)"

definition attr_get_default :: "pyval \<Rightarrow> string \<Rightarrow> pyval \<Rightarrow> error + pyval" where
  "attr_get_default x k dflt =
     (case x of PDict d \<Rightarrow> Inr (dict_get_default d k dflt) | _ \<Rightarrow> Inl AttributeError)"

text \<open>\<^verbatim>\<open>x or {}\<close>.\<close>

definition or_empty_dict :: "pyval \<Rightarrow> pyval" where
  "or_empty_dict x = (if truthy x then x else PDict [])"

subsection \<open>Float comparison\<close>

text \<open>IEEE comparison: every comparison with NaN is false.\<close>

fun fless :: "pyfloat \<Rightarrow> pyfloat \<Rightarrow> bool" where
  "fless (Fin x) (Fin y) = (x < y)"
| "fless (Fin x) PosInf = True"
| "fless NegInf (Fin y) = True"
| "fless NegInf PosInf = True"
| "fless _ _ = False"

definition fle :: "pyfloat \<Rightarrow> pyfloat \<Rightarrow> bool" where
  "fle a b = (fless a b \<or> (a = b \<and> a \<noteq> NaN))"

text \<open>The exact numeric value of a number (bool, int or float), for mixed comparisons.\<close>

fun num_of :: "pyval \<Rightarrow> pyfloat option" where
  "num_of (PBool b) = Some (Fin (if b then 1 else 0))"
| "num_of (PInt i) = Some (Fin (of_int i))"
| "num_of (PFloat f) = Some f"
| "num_of _ = None"

section \<open>Strings\<close>

definition is_space :: "char \<Rightarrow> bool" where
  "is_space c = (c \<in> set [CHR '' '', CHR 0x09, CHR 0x0A, CHR 0x0B, CHR 0x0C, CHR 0x0D,
                            CHR 0x1C, CHR 0x1D, CHR 0x1E, CHR 0x1F])"

definition is_digit :: "char \<Rightarrow> bool" where
  "is_digit c = (c \<in> set ''0123456789'')"

definition is_word :: "char \<Rightarrow> bool" where
  "is_word c = (c \<in> set ''0123456789abcdefghijklmnopqrstuvwxyzABCDEFGHIJKLMNOPQRSTUVWXYZ_'')"

definition lower_char :: "char \<Rightarrow> char" where
  "lower_char c =
     (case map_of (zip ''ABCDEFGHIJKLMNOPQRSTUVWXYZ'' ''abcdefghijklmnopqrstuvwxyz'') c of
        Some l \<Rightarrow> l | None \<Rightarrow> c)"

definition py_lower :: "string \<Rightarrow> string" where
  "py_lower s = map lower_char s"

definition py_strip :: "string \<Rightarrow> string" where
  "py_strip s = rev (dropWhile is_space (rev (dropWhile is_space s)))"

text \<open>\<^verbatim>\<open>s.replace(" ", "")\<close>.\<close>

definition remove_spaces :: "string \<Rightarrow> string" where
  "remove_spaces s = filter (\<lambda>c. c \<noteq> CHR '' '') s"

definition startswith :: "string \<Rightarrow> string \<Rightarrow> bool" where
  "startswith s p = (take (length p) s = p)"

definition endswith :: "string \<Rightarrow> string \<Rightarrow> bool" where
  "endswith s p = (length p \<le> length s \<and> drop (length s - length p) s = p)"

text \<open>\<^verbatim>\<open>p in s\<close> for strings.\<close>

fun contains :: "string \<Rightarrow> string \<Rightarrow> bool" where
  "contains p [] = (p = [])"
| "contains p (c # cs) = (startswith (c # cs) p \<or> contains p cs)"

definition nl :: string where
  "nl = [CHR 0x0A]"

definition quote :: string where
  "quote = [CHR 0x27]"

text \<open>\<^verbatim>\<open>int(m.group(1))\<close> for a group matched by \<^verbatim>\<open>\d+\<close>.\<close>

definition digit_val :: "char \<Rightarrow> int" where
  "digit_val c = int (length (takeWhile (\<lambda>d. d \<noteq> c) ''0123456789''))"

definition int_of_digits :: "string \<Rightarrow> int" where
  "int_of_digits s = foldl (\<lambda>a c. 10 * a + digit_val c) 0 s"

section \<open>The Python runtime\<close>

text \<open>
  Built-in conversions, formatting, float arithmetic and the \<^verbatim>\<open>datetime\<close> library are not code
  of the repository. They are parameters: every theorem below that quantifies over the
  runtime holds for each behaviour of these functions. \<open>None\<close> stands for the exception the
  built-in raises. A calendar date is its proleptic ordinal (\<^verbatim>\<open>date.toordinal()\<close>).
\<close>

type_synonym date = int

record runtime =
  float_of_str :: "string \<Rightarrow> pyfloat option"
  float_of_int :: "int \<Rightarrow> pyfloat option"
  int_of_str :: "string \<Rightarrow> int option"
  fmt_1f :: "pyval \<Rightarrow> string option"
  str_of :: "pyval \<Rightarrow> string"
  fadd :: "pyfloat \<Rightarrow> pyfloat \<Rightarrow> pyfloat"
  fsub :: "pyfloat \<Rightarrow> pyfloat \<Rightarrow> pyfloat"
  fmul :: "pyfloat \<Rightarrow> pyfloat \<Rightarrow> pyfloat"
  fdiv :: "pyfloat \<Rightarrow> pyfloat \<Rightarrow> pyfloat"
  fromisoformat :: "string \<Rightarrow> date option"
  isoformat :: "date \<Rightarrow> string"

text \<open>\<^verbatim>\<open>float(x)\<close>.\<close>

fun py_float :: "runtime \<Rightarrow> pyval \<Rightarrow> error + pyfloat" where
  "py_float rt PNone = Inl TypeError"
| "py_float rt (PBool b) = Inr (Fin (if b then 1 else 0))"
| "py_float rt (PInt i) =
     (case float_of_int rt i of None \<Rightarrow> Inl OverflowError | Some f \<Rightarrow> Inr f)"
| "py_float rt (PFloat f) = Inr f"
| "py_float rt (PStr s) =
     (case float_of_str rt s of None \<Rightarrow> Inl ValueError | Some f \<Rightarrow> Inr f)"
| "py_float rt (PList xs) = Inl TypeError"
| "py_float rt (PDict d) = Inl TypeError"

text \<open>\<^verbatim>\<open>int(x)\<close>: a finite float is truncated towards zero.\<close>

fun py_int :: "runtime \<Rightarrow> pyval \<Rightarrow> error + int" where
  "py_int rt PNone = Inl TypeError"
| "py_int rt (PBool b) = Inr (if b then 1 else 0)"
| "py_int rt (PInt i) = Inr i"
| "py_int rt (PFloat (Fin r)) = Inr (if 0 \<le> r then \<lfloor>r\<rfloor> else \<lceil>r\<rceil>)"
| "py_int rt (PFloat PosInf) = Inl OverflowError"
| "py_int rt (PFloat NegInf) = Inl OverflowError"
| "py_int rt (PFloat NaN) = Inl ValueError"
| "py_int rt (PStr s) =
     (case int_of_str rt s of None \<Rightarrow> Inl ValueError | Some i \<Rightarrow> Inr i)"
| "py_int rt (PList xs) = Inl TypeError"
| "py_int rt (PDict d) = Inl TypeError"

text \<open>\<^verbatim>\<open>format(x, ".1f")\<close> inside an f-string.\<close>

definition format_1f :: "runtime \<Rightarrow> pyval \<Rightarrow> error + string" where
  "format_1f rt v = (case fmt_1f rt v of None \<Rightarrow> Inl TypeError | Some s \<Rightarrow> Inr s)"

text \<open>\<^verbatim>\<open>a / b\<close> on floats.\<close>

definition py_truediv :: "runtime \<Rightarrow> pyfloat \<Rightarrow> pyfloat \<Rightarrow> error + pyfloat" where
  "py_truediv rt a b = (if b = Fin 0 then Inl ZeroDivisionError else Inr (fdiv rt a b))"

section \<open>Graph state and collaborators\<close>

text \<open>
  The dictionaries the tools of \<^verbatim>\<open>agentic/tools\<close> build have fixed keys, so they are records:
  a food summary (\<^verbatim>\<open>tool_lookup_upc\<close>, \<^verbatim>\<open>tool_search_food\<close>, \<^verbatim>\<open>tool_list_foods\<close>), the record
  of a logged meal (\<^verbatim>\<open>tool_log_meal\<close>) and the aggregation of a day (\<^verbatim>\<open>tool_compute_day\<close>).
\<close>

record food_item =
  fi_id :: int
  fi_name :: pyval
  fi_brand :: pyval
  fi_upc :: pyval
  fi_calories :: pyval
  fi_protein_g :: pyval
  fi_fat_g :: pyval
  fi_carbs_g :: pyval

record meal_entry =
  me_id :: int
  me_user_id :: int
  me_food_id :: int
  me_food_name :: pyval
  me_grams :: pyval
  me_meal_type :: pyval
  me_logged_at :: string

datatype log_result = LogError string | Logged meal_entry

record day_summary =
  ds_date :: string
  ds_meal_count :: nat
  ds_totals :: "(string \<times> pyfloat) list"
  ds_meals :: "pyval list"

record recommendation =
  rec_food_id :: int
  rec_name :: pyval
  rec_brand :: pyval
  rec_coverage :: "(string \<times> pyval) list"
  rec_calories_per_100g :: pyval

text \<open>The transcript of the tool-calling loop.\<close>

record tool_call =
  tc_name :: string
  tc_args :: pyval

datatype msg =
    SystemMessage string
  | DictMessage string string
  | AIMessage string "tool_call list"
  | ToolMessage string

text \<open>
  \<^verbatim>\<open>GraphState\<close> (\<^verbatim>\<open>state.py\<close>), with the two keys the handlers add to the dictionary they
  return (\<^verbatim>\<open>day_data\<close>, \<^verbatim>\<open>recommendations\<close>). \<open>None\<close> is Python's \<^verbatim>\<open>None\<close> where a field is
  optional. The \<^verbatim>\<open>messages\<close> key has the reducer \<^verbatim>\<open>add_messages\<close>; every node returns the whole
  list it received with new messages at the end, for which the reducer gives that list.
\<close>

record graph_state =
  messages :: "msg list"
  user_id :: int
  input_text :: string
  intent :: pyval
  entities :: pyval
  food_candidates :: "food_item list"
  selected_food :: "food_item option"
  log_entry :: "meal_entry option"
  day_data :: "day_summary option"
  day_totals :: "(string \<times> pyfloat) list option"
  goals :: pyval
  recommendations :: "recommendation list"
  response :: string
  needs_clarification :: bool
  questions :: "string list"
  confidence :: pyfloat

text \<open>
  The four handlers that are wrapped in a tool-calling loop (\<^verbatim>\<open>add_agent_tool_pipeline\<close>).
\<close>

datatype pipeline = SearchP | LoggingP | AnalysisP | RecommendP

text \<open>
  The language model (\<^verbatim>\<open>get_llm()\<close>). \<open>classify\<close> is \<^verbatim>\<open>json.loads(llm.invoke(prompt).content)\<close>,
  \<open>None\<close> when the call or the parse raises; \<open>chat p\<close> is
  \<^verbatim>\<open>llm.bind_tools(tools).invoke(messages)\<close> for the tool set of pipeline \<open>p\<close>, \<open>None\<close> when
  the call raises.
\<close>

record llm_client =
  classify :: "string \<Rightarrow> pyval option"
  chat :: "pipeline \<Rightarrow> msg list \<Rightarrow> (string \<times> tool_call list) option"

text \<open>A row of \<^verbatim>\<open>meal_logs\<close> (\<^verbatim>\<open>app/models.py\<close>, class \<^verbatim>\<open>MealLog\<close>) as handed to the session.\<close>

record meal_row =
  mr_user_id :: int
  mr_food_id :: int
  mr_grams :: pyval
  mr_meal_type :: pyval
  mr_notes :: pyval

text \<open>A row of \<^verbatim>\<open>foods\<close> as the recommendation handler reads it (\<^verbatim>\<open>getattr(food, key, None)\<close>).\<close>

record food_row =
  fr_id :: int
  fr_name :: pyval
  fr_brand :: pyval
  fr_calories :: pyval
  fr_attr :: "string \<Rightarrow> pyval"

text \<open>
  The collaborators of one turn: the model, the storage queries behind the tools, the clock
  and the system prompts. A storage query that raises is \<open>None\<close> (or \<open>Inl\<close> with the
  exception's text, where the tool reports it). Each query is asked at most once per turn by
  the handlers, so a function of its arguments covers every possible reply.
\<close>

record collaborators =
  llm :: "llm_client option"
  system_prompt :: "pipeline \<Rightarrow> string"
  run_tool :: "pipeline \<Rightarrow> tool_call \<Rightarrow> string"
  db_lookup_upc :: "pyval \<Rightarrow> food_item list option"
  db_search_food :: "pyval \<Rightarrow> nat \<Rightarrow> food_item list option"
  db_list_foods :: "nat \<Rightarrow> food_item list option"
  db_user_exists :: "int \<Rightarrow> bool"
  db_food_name :: "int \<Rightarrow> pyval option"
  db_insert_meal :: "meal_row \<Rightarrow> string + (int \<times> string)"
  db_day :: "int \<Rightarrow> date \<Rightarrow> (nat \<times> (string \<Rightarrow> pyfloat) \<times> pyval list) option"
  db_user_goals :: "int \<Rightarrow> pyval option"
  db_all_foods :: "food_row list option"
  today :: date
  tool_today :: date

definition raising :: "'a option \<Rightarrow> error + 'a" where
  "raising r = (case r of None \<Rightarrow> Inl CollaboratorError | Some x \<Rightarrow> Inr x)"

section \<open>Intent extraction (\<^verbatim>\<open>agents/orchestrator.py\<close>)\<close>

definition join :: "string \<Rightarrow> string list \<Rightarrow> string" where
  "join sep xs = (case xs of [] \<Rightarrow> [] | x # rest \<Rightarrow> foldl (\<lambda>acc y. acc @ sep @ y) x rest)"

definition ALLOWED_INTENTS :: "string list" where
  "ALLOWED_INTENTS = [''scan_barcode'', ''search_food'', ''log_meal'', ''daily_summary'', ''recommend'']"

definition build_prompt :: "string \<Rightarrow> string" where
  "build_prompt user_text =
     ''You are an intent and entity extractor for a nutrition app.'' @ nl @
     ''Return STRICT JSON with keys: intent, entities, confidence.'' @ nl @ nl @
     ''Allowed intents: '' @ join '', '' ALLOWED_INTENTS @ nl @
     ''Entities: food_name, grams, upc, meal_type, date, food_id (use null if not present).'' @ nl @
     ''Rules: extract concise food_name (e.g., 'oats'), parse 'food_id=3', '100g'/'80 grams', 12-digit UPC;'' @
     '' set date to 'today' if user says today.'' @ nl @ nl @
     ''User message:'' @ nl @ user_text @ nl"

subsection \<open>The three regular expressions of the heuristic\<close>

text \<open>
  \<^verbatim>\<open>re.search\<close> tries every start position from the left and returns the first match. The
  digit runs are greedy; a shorter run never helps, because the character after it would be
  a digit where the pattern needs something else. \<open>at_boundary t\<close> is \<^verbatim>\<open>\b\<close> after a word
  character, with \<open>t\<close> the text that follows.
\<close>

definition at_boundary :: "string \<Rightarrow> bool" where
  "at_boundary t = (case t of [] \<Rightarrow> True | c # _ \<Rightarrow> \<not> is_word c)"

text \<open>\<^verbatim>\<open>\s*(g|grams?)\b\<close> at the start of \<open>r\<close>.\<close>

definition unit_follows :: "string \<Rightarrow> bool" where
  "unit_follows r =
     (case dropWhile is_space r of
        [] \<Rightarrow> False
      | c # t \<Rightarrow>
          c = CHR ''g'' \<and>
          (at_boundary t \<or>
           (startswith t ''ram'' \<and>
            ((case drop 3 t of [] \<Rightarrow> False | x # v \<Rightarrow> x = CHR ''s'' \<and> at_boundary v) \<or>
             at_boundary (drop 3 t)))))"

text \<open>\<^verbatim>\<open>(\d+(?:\.\d+)?)\s*(g|grams?)\b\<close> at the start of \<open>s\<close>: group 1.\<close>

definition grams_match_at :: "string \<Rightarrow> string option" where
  "grams_match_at s =
     (let d = takeWhile is_digit s; r = dropWhile is_digit s in
      if d = [] then None
      else (case r of
              [] \<Rightarrow> None
            | c # r' \<Rightarrow>
                (let f = takeWhile is_digit r'; r2 = dropWhile is_digit r' in
                 if c = CHR ''.'' \<and> f \<noteq> [] \<and> unit_follows r2 then Some (d @ ''.'' @ f)
                 else if unit_follows r then Some d
                 else None)))"

fun re_search_grams :: "string \<Rightarrow> string option" where
  "re_search_grams [] = None"
| "re_search_grams (c # cs) =
     (case grams_match_at (c # cs) of Some g \<Rightarrow> Some g | None \<Rightarrow> re_search_grams cs)"

text \<open>\<^verbatim>\<open>food_id\s*=\s*(\d+)\<close> at the start of \<open>s\<close>: group 1.\<close>

definition food_id_match_at :: "string \<Rightarrow> string option" where
  "food_id_match_at s =
     (if startswith s ''food_id'' then
        (case dropWhile is_space (drop 7 s) of
           [] \<Rightarrow> None
         | c # r \<Rightarrow>
             (let d = takeWhile is_digit (dropWhile is_space r) in
              if c = CHR ''='' \<and> d \<noteq> [] then Some d else None))
      else None)"

fun re_search_food_id :: "string \<Rightarrow> string option" where
  "re_search_food_id [] = None"
| "re_search_food_id (c # cs) =
     (case food_id_match_at (c # cs) of Some g \<Rightarrow> Some g | None \<Rightarrow> re_search_food_id cs)"

text \<open>
  \<^verbatim>\<open>\b(\d{12})\b\<close>: the flag says whether the character before the current position is a word
  character.
\<close>

fun re_search_upc :: "bool \<Rightarrow> string \<Rightarrow> string option" where
  "re_search_upc prev_word [] = None"
| "re_search_upc prev_word (c # cs) =
     (if \<not> prev_word \<and> length (take 12 (c # cs)) = 12 \<and> list_all is_digit (take 12 (c # cs))
          \<and> at_boundary (drop 12 (c # cs))
      then Some (take 12 (c # cs))
      else re_search_upc (is_word c) cs)"

subsection \<open>\<^verbatim>\<open>_heuristic_intent\<close>\<close>

definition heuristic_entities :: "runtime \<Rightarrow> string \<Rightarrow> (string \<times> pyval) list" where
  "heuristic_entities rt text =
     (let e0 = [(''food_name'', PNone), (''grams'', PNone), (''upc'', PNone),
                (''meal_type'', PNone), (''date'', PNone), (''food_id'', PNone)];
          e1 = (case re_search_grams text of
                  None \<Rightarrow> e0
                | Some g \<Rightarrow> (case float_of_str rt g of
                               None \<Rightarrow> e0
                             | Some f \<Rightarrow> dict_set e0 ''grams'' (PFloat f)));
          e2 = (case re_search_food_id text of
                  None \<Rightarrow> e1
                | Some g \<Rightarrow> dict_set e1 ''food_id'' (PInt (int_of_digits g)));
          e3 = (case re_search_upc False text of
                  None \<Rightarrow> e2
                | Some g \<Rightarrow> dict_set e2 ''upc'' (PStr g));
          e4 = (case find (\<lambda>mt. contains mt text) [''breakfast'', ''lunch'', ''dinner'', ''snack''] of
                  None \<Rightarrow> e3
                | Some mt \<Rightarrow> dict_set e3 ''meal_type'' (PStr mt))
      in if contains ''yesterday'' text then dict_set e4 ''date'' (PStr ''yesterday'')
         else if contains ''today'' text then dict_set e4 ''date'' (PStr ''today'')
         else e4)"

text \<open>\<^verbatim>\<open>entities["date"] = entities["date"] or "today"\<close>.\<close>

definition default_today :: "(string \<times> pyval) list \<Rightarrow> (string \<times> pyval) list" where
  "default_today e =
     dict_set e ''date'' (if truthy (dict_get e ''date'') then dict_get e ''date'' else PStr ''today'')"

definition heuristic_intent :: "runtime \<Rightarrow> graph_state \<Rightarrow> graph_state" where
  "heuristic_intent rt s =
     (let text = py_strip (py_lower (input_text s));
          e = heuristic_entities rt text;
          r = (if contains ''barcode'' text \<or> contains ''upc'' text \<or> contains ''scan'' text
                 then (''scan_barcode'', e)
               else if startswith text ''search ''
                 then (''search_food'',
                       dict_set e ''food_name'' (PStr (py_strip (drop 7 (input_text s)))))
               else if contains ''recommend'' text \<or> contains ''suggest'' text
                 then (''recommend'', default_today e)
               else if contains ''summary'' text \<or> contains ''report'' text
                       \<or> text = ''today'' \<or> text = ''yesterday''
                 then (''daily_summary'', default_today e)
               else if contains ''log'' text \<or> contains ''ate'' text \<or> contains ''consumed'' text
                       \<or> truthy (dict_get e ''food_id'') \<or> truthy (dict_get e ''grams'')
                 then (''log_meal'', e)
               else (''search_food'', e))
      in s\<lparr>intent := PStr (fst r), entities := PDict (snd r), confidence := Fin (1/2)\<rparr>)"

subsection \<open>\<^verbatim>\<open>OrchestratorAgent.run\<close>\<close>

text \<open>The body of the \<^verbatim>\<open>try\<close> block: any exception in it sends the turn to the heuristic.\<close>

definition llm_intent :: "runtime \<Rightarrow> llm_client \<Rightarrow> graph_state \<Rightarrow> error + graph_state" where
  "llm_intent rt m s =
     ebind (raising (classify m (build_prompt (input_text s)))) (\<lambda>result.
     ebind (attr_get result ''intent'') (\<lambda>i.
     ebind (attr_get_default result ''entities'' (PDict [])) (\<lambda>e.
     ebind (attr_get_default result ''confidence'' (PFloat (Fin (7/10)))) (\<lambda>c.
     ebind (py_float rt c) (\<lambda>f.
       Inr (s\<lparr>intent := i, entities := e, confidence := f\<rparr>))))))"

definition OrchestratorAgent_run :: "runtime \<Rightarrow> collaborators \<Rightarrow> graph_state \<Rightarrow> graph_state" where
  "OrchestratorAgent_run rt env s =
     (case llm env of
        None \<Rightarrow> heuristic_intent rt s
      | Some m \<Rightarrow> (case llm_intent rt m s of
                     Inr s' \<Rightarrow> s'
                   | Inl e \<Rightarrow> heuristic_intent rt s))"

section \<open>Tools (\<^verbatim>\<open>agentic/tools\<close>)\<close>

definition tool_lookup_upc :: "collaborators \<Rightarrow> pyval \<Rightarrow> error + food_item list" where
  "tool_lookup_upc env upc = raising (db_lookup_upc env upc)"

definition tool_search_food :: "collaborators \<Rightarrow> pyval \<Rightarrow> nat \<Rightarrow> error + food_item list" where
  "tool_search_food env query limit = raising (db_search_food env query limit)"

definition tool_list_foods :: "collaborators \<Rightarrow> nat \<Rightarrow> error + food_item list" where
  "tool_list_foods env limit = raising (db_list_foods env limit)"

text \<open>
  \<^verbatim>\<open>MealLog.meal_type\<close> is declared \<^verbatim>\<open>Column(String, default="snack")\<close> (\<^verbatim>\<open>app/models.py\<close>). The
  session leaves an attribute whose value is \<^verbatim>\<open>None\<close> out of the INSERT when its column has a
  default, so the default is what is stored and what \<^verbatim>\<open>db.refresh\<close> reads back.
\<close>

definition column_defaults :: "meal_row \<Rightarrow> meal_row" where
  "column_defaults r = (if mr_meal_type r = PNone then r\<lparr>mr_meal_type := PStr ''snack''\<rparr> else r)"

text \<open>
  \<^verbatim>\<open>tool_log_meal\<close>: both lookups come first, then the two checks; \<open>db_insert_meal\<close> is
  add, commit and refresh, giving the new id and the timestamp, or the text of the exception
  the \<^verbatim>\<open>except\<close> clause turns into an error result.
\<close>

definition tool_log_meal :: "collaborators \<Rightarrow> int \<Rightarrow> int \<Rightarrow> pyval \<Rightarrow> pyval \<Rightarrow> log_result" where
  "tool_log_meal env uid fid grams meal_type =
     (if \<not> db_user_exists env uid then LogError ''User not found''
      else (case db_food_name env fid of
              None \<Rightarrow> LogError ''Food not found''
            | Some name \<Rightarrow>
                (let row = column_defaults \<lparr>mr_user_id = uid, mr_food_id = fid, mr_grams = grams,
                                            mr_meal_type = meal_type, mr_notes = PNone\<rparr>
                 in (case db_insert_meal env row of
                       Inl e \<Rightarrow> LogError e
                     | Inr (rid, ts) \<Rightarrow>
                         Logged \<lparr>me_id = rid, me_user_id = mr_user_id row,
                                 me_food_id = mr_food_id row, me_food_name = name,
                                 me_grams = mr_grams row, me_meal_type = mr_meal_type row,
                                 me_logged_at = ts\<rparr>))))"

text \<open>
  The keys of the \<^verbatim>\<open>totals\<close> dictionary \<^verbatim>\<open>tool_compute_day\<close> returns (\<^verbatim>\<open>agentic/tools.py\<close>; the
  variant in \<^verbatim>\<open>agentic/tools/summary.py\<close> exports every field of \<^verbatim>\<open>NutritionTotals\<close>, these
  fifteen among them).
\<close>

definition total_keys :: "string list" where
  "total_keys = [''calories'', ''protein_g'', ''fat_g'', ''carbs_g'', ''vitamin_a_rae'',
                 ''vitamin_c_mg'', ''vitamin_d_iu'', ''vitamin_e_mg'', ''vitamin_k_mcg'',
                 ''calcium_mg'', ''iron_mg'', ''magnesium_mg'', ''zinc_mg'', ''potassium_mg'',
                 ''sodium_mg'']"

text \<open>\<^verbatim>\<open>datetime.fromisoformat(date_iso).date()\<close> when \<^verbatim>\<open>date_iso\<close> is truthy, else the current date.\<close>

definition resolve_date_iso :: "runtime \<Rightarrow> collaborators \<Rightarrow> pyval \<Rightarrow> error + date" where
  "resolve_date_iso rt env date_iso =
     (if truthy date_iso then
        (case date_iso of
           PStr t \<Rightarrow> (case fromisoformat rt t of None \<Rightarrow> Inl ValueError | Some d \<Rightarrow> Inr d)
         | _ \<Rightarrow> Inl TypeError)
      else Inr (tool_today env))"

definition tool_compute_day :: "runtime \<Rightarrow> collaborators \<Rightarrow> int \<Rightarrow> pyval \<Rightarrow> error + day_summary" where
  "tool_compute_day rt env uid date_iso =
     ebind (resolve_date_iso rt env date_iso) (\<lambda>target_date.
     ebind (raising (db_day env uid target_date)) (\<lambda>(n, totals, meals).
       Inr \<lparr>ds_date = isoformat rt target_date, ds_meal_count = n,
            ds_totals = map (\<lambda>k. (k, totals k)) total_keys, ds_meals = meals\<rparr>))"

definition tool_get_user_goals :: "collaborators \<Rightarrow> int \<Rightarrow> error + pyval" where
  "tool_get_user_goals env uid = raising (db_user_goals env uid)"

section \<open>Handlers\<close>

subsection \<open>\<^verbatim>\<open>BarcodeAgent.run\<close>\<close>

definition BarcodeAgent_run :: "runtime \<Rightarrow> collaborators \<Rightarrow> graph_state \<Rightarrow> error + graph_state" where
  "BarcodeAgent_run rt env s =
     ebind (attr_get (entities s) ''upc'') (\<lambda>upc.
       if \<not> truthy upc then
         Inr (s\<lparr>needs_clarification := True,
                questions := [''Please provide a UPC code to scan.''],
                response := ''I need a UPC code to look up the product. Please provide the barcode number.''\<rparr>)
       else
         ebind (tool_lookup_upc env upc) (\<lambda>foods.
           (case foods of
              f # rest \<Rightarrow>
                Inr (s\<lparr>food_candidates := foods, selected_food := Some f,
                       response := ''Found '' @ str_of rt (fi_name f) @ '' ('' @ str_of rt (fi_brand f)
                                   @ ''). '' @ str_of rt (fi_calories f) @ '' calories per 100g.''\<rparr>)
            | [] \<Rightarrow>
                Inr (s\<lparr>needs_clarification := True,
                       questions := [''Would you like to search by name instead?''],
                       response := ''No food found with UPC '' @ str_of rt upc
                                   @ ''. Would you like to search by name instead?''\<rparr>))))"

subsection \<open>\<^verbatim>\<open>FoodSearchAgent.run\<close>\<close>

definition FoodSearchAgent_run :: "runtime \<Rightarrow> collaborators \<Rightarrow> graph_state \<Rightarrow> error + graph_state" where
  "FoodSearchAgent_run rt env s =
     ebind (attr_get (entities s) ''food_name'') (\<lambda>food_name.
       if \<not> truthy food_name then
         Inr (s\<lparr>needs_clarification := True,
                questions := [''What food would you like to search for?''],
                response := ''What food would you like to search for?''\<rparr>)
       else
         ebind (tool_search_food env food_name 5) (\<lambda>foods.
           if foods \<noteq> [] then
             Inr (s\<lparr>food_candidates := foods,
                    response := ''Found '' @ str_of rt (PInt (int (length foods))) @ '' food items.''\<rparr>)
           else
             Inr (s\<lparr>response := ''No foods found matching '' @ quote @ str_of rt food_name @ quote
                                @ ''. Try a different search term.''\<rparr>)))"

subsection \<open>\<^verbatim>\<open>LoggingAgent.run\<close>\<close>

text \<open>The second half of the handler, once the food to log is known.\<close>

definition log_selected :: "runtime \<Rightarrow> collaborators \<Rightarrow> graph_state \<Rightarrow> food_item \<Rightarrow> error + graph_state" where
  "log_selected rt env s food =
     ebind (attr_get (entities s) ''grams'') (\<lambda>grams.
       if \<not> truthy grams then
         Inr (s\<lparr>needs_clarification := True,
                questions := [''How many grams?''],
                response := ''How many grams of '' @ str_of rt (fi_name food) @ '' would you like to log?''\<rparr>)
       else
         ebind (attr_get_default (entities s) ''meal_type'' (PStr ''snack'')) (\<lambda>meal_type.
           (case tool_log_meal env (user_id s) (fi_id food) grams meal_type of
              LogError e \<Rightarrow> Inr (s\<lparr>response := ''Error logging meal: '' @ e\<rparr>)
            | Logged r \<Rightarrow>
                Inr (s\<lparr>log_entry := Some r,
                       response := ''Logged '' @ str_of rt grams @ ''g of '' @ str_of rt (fi_name food)
                                   @ '' ('' @ str_of rt meal_type @ '').''\<rparr>))))"

definition LoggingAgent_run :: "runtime \<Rightarrow> collaborators \<Rightarrow> graph_state \<Rightarrow> error + graph_state" where
  "LoggingAgent_run rt env s =
     ebind (attr_get (entities s) ''food_id'') (\<lambda>food_id.
       if truthy food_id then
         ebind (attr_get (entities s) ''grams'') (\<lambda>grams.
           if \<not> truthy grams then
             Inr (s\<lparr>needs_clarification := True,
                    questions := [''How many grams?''],
                    response := ''How many grams would you like to log?''\<rparr>)
           else
             ebind (attr_get_default (entities s) ''meal_type'' (PStr ''snack'')) (\<lambda>meal_type.
             ebind (py_int rt food_id) (\<lambda>fid.
             ebind (py_float rt grams) (\<lambda>g.
               (case tool_log_meal env (user_id s) fid (PFloat g) meal_type of
                  LogError e \<Rightarrow> Inr (s\<lparr>response := ''Error logging meal: '' @ e\<rparr>)
                | Logged r \<Rightarrow>
                    Inr (s\<lparr>log_entry := Some r,
                           response := ''Logged '' @ str_of rt (me_grams r) @ ''g of ''
                                       @ str_of rt (me_food_name r) @ '' (''
                                       @ str_of rt (me_meal_type r) @ '').''\<rparr>))))))
       else if food_candidates s = [] \<and> selected_food s = None then
         ebind (tool_list_foods env 5) (\<lambda>suggestions.
           Inr (s\<lparr>needs_clarification := True,
                  questions := [''What food would you like to log? You can choose an ID from suggestions.''],
                  food_candidates := suggestions,
                  response := ''What food would you like to log?''\<rparr>))
       else
         (case selected_food s of
            Some food \<Rightarrow> log_selected rt env s food
          | None \<Rightarrow>
              (case food_candidates s of
                 [] \<Rightarrow> Inl TypeError
               | food # rest \<Rightarrow>
                   if rest \<noteq> [] then
                     Inr (s\<lparr>needs_clarification := True,
                            questions := [''Which food (1-''
                                          @ str_of rt (PInt (int (length (food_candidates s)))) @ '')?''],
                            response := ''Please specify which food item you'' @ quote
                                        @ ''d like to log.''\<rparr>)
                   else log_selected rt env s food)))"

subsection \<open>\<^verbatim>\<open>AnalysisAgent.run\<close>\<close>

text \<open>The two status markers and the dash of the recommendation lines, as the bytes of the files.\<close>

definition pass_marker :: string where
  "pass_marker = [CHR 0xC3, CHR 0xA2, CHR 0xC5, CHR 0x93, CHR 0xE2, CHR 0x80, CHR 0xA6]"

definition fail_marker :: string where
  "fail_marker = [CHR 0xC3, CHR 0xA2, CHR 0xC5, CHR 0x92]"

definition em_dash :: string where
  "em_dash = [CHR 0xE2, CHR 0x80, CHR 0x94]"

text \<open>The date the Analysis handler passes to \<^verbatim>\<open>tool_compute_day\<close>.\<close>

definition analysis_date_iso :: "runtime \<Rightarrow> collaborators \<Rightarrow> pyval \<Rightarrow> pyval" where
  "analysis_date_iso rt env d =
     (if d = PStr ''today'' \<or> d = PStr ''now'' \<or> d = PNone then PNone
      else if d = PStr ''yesterday'' then PStr (isoformat rt (today env - 1))
      else d)"

definition total_of :: "(string \<times> pyfloat) list \<Rightarrow> string \<Rightarrow> error + pyfloat" where
  "total_of totals k = (case map_of totals k of None \<Rightarrow> Inl KeyError | Some v \<Rightarrow> Inr v)"

text \<open>The totals the response lists: label, key and unit of each line, in order.\<close>

definition summary_fields :: "(string \<times> string \<times> string) list" where
  "summary_fields =
     [(''Calories'', ''calories'', []), (''Protein'', ''protein_g'', ''g''),
      (''Fat'', ''fat_g'', ''g''), (''Carbs'', ''carbs_g'', ''g''),
      (''Vitamin C'', ''vitamin_c_mg'', ''mg''), (''Calcium'', ''calcium_mg'', ''mg''),
      (''Iron'', ''iron_mg'', ''mg''), (''Magnesium'', ''magnesium_mg'', ''mg'')]"

definition total_line :: "runtime \<Rightarrow> (string \<times> pyfloat) list \<Rightarrow> string \<times> string \<times> string \<Rightarrow> error + string" where
  "total_line rt totals f =
     (case f of (label, k, unit) \<Rightarrow>
        ebind (total_of totals k) (\<lambda>v.
        ebind (format_1f rt (PFloat v)) (\<lambda>t.
          Inr (label @ '': '' @ t @ unit @ nl))))"

fun totals_lines :: "runtime \<Rightarrow> (string \<times> pyfloat) list \<Rightarrow> (string \<times> string \<times> string) list \<Rightarrow> string \<Rightarrow> error + string" where
  "totals_lines rt totals [] acc = Inr acc"
| "totals_lines rt totals (f # fs) acc =
     ebind (total_line rt totals f) (\<lambda>line. totals_lines rt totals fs (acc @ line))"

text \<open>\<^verbatim>\<open>goal > 0\<close> and \<^verbatim>\<open>actual >= goal\<close>: a goal that is not a number raises.\<close>

definition py_gt_zero :: "pyval \<Rightarrow> error + bool" where
  "py_gt_zero v = (case num_of v of None \<Rightarrow> Inl TypeError | Some f \<Rightarrow> Inr (fless (Fin 0) f))"

definition float_ge :: "pyfloat \<Rightarrow> pyval \<Rightarrow> error + bool" where
  "float_ge actual goal = (case num_of goal of None \<Rightarrow> Inl TypeError | Some g \<Rightarrow> Inr (fle g actual))"

text \<open>\<^verbatim>\<open>(actual / goal * 100) if goal > 0 else 0\<close>.\<close>

definition percentage :: "runtime \<Rightarrow> pyfloat \<Rightarrow> pyval \<Rightarrow> error + pyval" where
  "percentage rt actual goal =
     ebind (py_gt_zero goal) (\<lambda>pos.
       if pos then
         ebind (py_float rt goal) (\<lambda>g.
         ebind (py_truediv rt actual g) (\<lambda>q.
           Inr (PFloat (fmul rt q (Fin 100)))))
       else Inr (PInt 0))"

definition goal_line :: "runtime \<Rightarrow> string \<Rightarrow> pyfloat \<Rightarrow> pyval \<Rightarrow> error + string" where
  "goal_line rt nutrient actual goal =
     ebind (percentage rt actual goal) (\<lambda>pct.
     ebind (float_ge actual goal) (\<lambda>ok.
     ebind (format_1f rt (PFloat actual)) (\<lambda>a.
     ebind (format_1f rt goal) (\<lambda>g.
     ebind (format_1f rt pct) (\<lambda>p.
       Inr ((if ok then pass_marker else fail_marker) @ '' '' @ nutrient @ '': '' @ a @ ''/'' @ g
            @ '' ('' @ p @ ''%)'' @ nl))))))"

text \<open>The loop over \<^verbatim>\<open>goals.items()\<close>, appending to the response.\<close>

fun goal_progress :: "runtime \<Rightarrow> (string \<times> pyfloat) list \<Rightarrow> (string \<times> pyval) list \<Rightarrow> string \<Rightarrow> error + string" where
  "goal_progress rt totals [] acc = Inr acc"
| "goal_progress rt totals ((nutrient, goal) # rest) acc =
     (case map_of totals nutrient of
        None \<Rightarrow> goal_progress rt totals rest acc
      | Some actual \<Rightarrow>
          ebind (goal_line rt nutrient actual goal) (\<lambda>line.
            goal_progress rt totals rest (acc @ line)))"

text \<open>
  \<^verbatim>\<open>tool_compute_day\<close> never returns a dictionary with the key \<^verbatim>\<open>error\<close>, so the handler's first
  branch (\<^verbatim>\<open>if "error" in day_data\<close>) is never taken; a failure of the tool is an exception.
\<close>

definition AnalysisAgent_run :: "runtime \<Rightarrow> collaborators \<Rightarrow> graph_state \<Rightarrow> error + graph_state" where
  "AnalysisAgent_run rt env s =
     ebind (attr_get (entities s) ''date'') (\<lambda>d.
     ebind (tool_compute_day rt env (user_id s) (analysis_date_iso rt env d)) (\<lambda>day.
     ebind (tool_get_user_goals env (user_id s)) (\<lambda>g.
     ebind (totals_lines rt (ds_totals day) summary_fields
              (''Daily Summary for '' @ ds_date day @ '':'' @ nl @
               ''Meals logged: '' @ str_of rt (PInt (int (ds_meal_count day))) @ nl)) (\<lambda>body.
     ebind (if truthy g then
              (case g of
                 PDict items \<Rightarrow>
                   goal_progress rt (ds_totals day) items (body @ nl @ ''Goal Progress:'' @ nl)
               | _ \<Rightarrow> Inl AttributeError)
            else Inr body) (\<lambda>text.
       Inr (s\<lparr>day_data := Some day, day_totals := Some (ds_totals day), goals := g,
              response := text\<rparr>))))))"

subsection \<open>\<^verbatim>\<open>RecommendationAgent.run\<close>\<close>

text \<open>The date the Recommendation handler passes: \<^verbatim>\<open>entities.get("date") or date.today().isoformat()\<close>.\<close>

definition recommend_date_iso :: "runtime \<Rightarrow> collaborators \<Rightarrow> pyval \<Rightarrow> pyval" where
  "recommend_date_iso rt env d = (if truthy d then d else PStr (isoformat rt (today env)))"

text \<open>The gaps loop: an exception in one entry skips that entry.\<close>

fun compute_gaps :: "runtime \<Rightarrow> (string \<times> pyfloat) list \<Rightarrow> (string \<times> pyval) list \<Rightarrow> (string \<times> pyfloat) list \<Rightarrow> (string \<times> pyfloat) list" where
  "compute_gaps rt totals [] gaps = gaps"
| "compute_gaps rt totals ((k, goal) # rest) gaps =
     (case py_float rt goal of
        Inl e \<Rightarrow> compute_gaps rt totals rest gaps
      | Inr g \<Rightarrow>
          (let actual = (case map_of totals k of None \<Rightarrow> Fin 0 | Some v \<Rightarrow> v);
               delta = fsub rt g actual
           in if fless (Fin 0) delta then compute_gaps rt totals rest (dict_set gaps k delta)
              else compute_gaps rt totals rest gaps))"

text \<open>\<^verbatim>\<open>sorted(..., key=..., reverse=True)\<close>: stable, largest key first.\<close>

fun insert_desc :: "('a \<Rightarrow> pyfloat) \<Rightarrow> 'a \<Rightarrow> 'a list \<Rightarrow> 'a list" where
  "insert_desc key x [] = [x]"
| "insert_desc key x (y # ys) =
     (if fless (key x) (key y) then y # insert_desc key x ys else x # y # ys)"

definition sort_desc :: "('a \<Rightarrow> pyfloat) \<Rightarrow> 'a list \<Rightarrow> 'a list" where
  "sort_desc key xs = foldr (insert_desc key) xs []"

definition gap_of :: "(string \<times> pyfloat) list \<Rightarrow> string \<Rightarrow> pyfloat" where
  "gap_of gaps k = (case map_of gaps k of None \<Rightarrow> NaN | Some g \<Rightarrow> g)"

text \<open>The inner loop over the top gap keys for one food: score and coverage.\<close>

fun score_food :: "runtime \<Rightarrow> (string \<times> pyfloat) list \<Rightarrow> food_row \<Rightarrow> string list \<Rightarrow> pyfloat \<times> (string \<times> pyval) list \<Rightarrow> error + (pyfloat \<times> (string \<times> pyval) list)" where
  "score_food rt gaps food [] acc = Inr acc"
| "score_food rt gaps food (k # ks) acc =
     (case num_of (fr_attr food k) of
        None \<Rightarrow> score_food rt gaps food ks acc
      | Some v \<Rightarrow>
          if fless (Fin 0) v then
            (let gap = gap_of gaps k;
                 covered = (if fless gap v then PFloat gap else fr_attr food k);
                 m = (if fless gap (Fin (1 / 1000000000)) then Fin (1 / 1000000000) else gap)
             in ebind (py_float rt covered) (\<lambda>c.
                ebind (py_truediv rt c m) (\<lambda>q.
                  score_food rt gaps food ks (fadd rt (fst acc) q, dict_set (snd acc) k covered))))
          else score_food rt gaps food ks acc)"

fun rank_foods :: "runtime \<Rightarrow> (string \<times> pyfloat) list \<Rightarrow> string list \<Rightarrow> food_row list \<Rightarrow> error + (pyfloat \<times> food_row \<times> (string \<times> pyval) list) list" where
  "rank_foods rt gaps ks [] = Inr []"
| "rank_foods rt gaps ks (food # rest) =
     ebind (score_food rt gaps food ks (Fin 0, [])) (\<lambda>r.
     ebind (rank_foods rt gaps ks rest) (\<lambda>ranked.
       Inr (if fless (Fin 0) (fst r) then (fst r, food, snd r) # ranked else ranked)))"

fun emap :: "('a \<Rightarrow> error + 'b) \<Rightarrow> 'a list \<Rightarrow> error + 'b list" where
  "emap f [] = Inr []"
| "emap f (x # xs) = ebind (f x) (\<lambda>y. ebind (emap f xs) (\<lambda>ys. Inr (y # ys)))"

definition rec_line :: "runtime \<Rightarrow> pyfloat \<times> food_row \<times> (string \<times> pyval) list \<Rightarrow> error + string" where
  "rec_line rt p =
     (case p of (score, food, coverage) \<Rightarrow>
        ebind (emap (\<lambda>(k, v). ebind (format_1f rt v) (\<lambda>t. Inr (k @ '': +'' @ t))) coverage) (\<lambda>why_bits.
          Inr (''- '' @ str_of rt (fr_name food) @ '' ('' @ str_of rt (fr_brand food) @ '') ''
               @ em_dash @ '' covers '' @ join '', '' why_bits)))"

definition rec_of :: "pyfloat \<times> food_row \<times> (string \<times> pyval) list \<Rightarrow> recommendation" where
  "rec_of p =
     (case p of (score, food, coverage) \<Rightarrow>
        \<lparr>rec_food_id = fr_id food, rec_name = fr_name food, rec_brand = fr_brand food,
         rec_coverage = coverage, rec_calories_per_100g = fr_calories food\<rparr>)"

definition RecommendationAgent_run :: "runtime \<Rightarrow> collaborators \<Rightarrow> graph_state \<Rightarrow> error + graph_state" where
  "RecommendationAgent_run rt env s =
     ebind (attr_get (entities s) ''date'') (\<lambda>d.
     ebind (tool_compute_day rt env (user_id s) (recommend_date_iso rt env d)) (\<lambda>day.
     ebind (tool_get_user_goals env (user_id s)) (\<lambda>g.
     ebind (case or_empty_dict g of PDict items \<Rightarrow> Inr items | _ \<Rightarrow> Inl AttributeError) (\<lambda>items.
       (let gaps = compute_gaps rt (ds_totals day) items [] in
        if gaps = [] then
          Inr (s\<lparr>response := ''You're meeting your goals today. Nice work!''\<rparr>)
        else
          ebind (raising (db_all_foods env)) (\<lambda>foods.
          ebind (rank_foods rt gaps (take 6 (sort_desc (gap_of gaps) (map fst gaps))) foods) (\<lambda>ranked.
            (let picks = take 5 (sort_desc fst ranked) in
             if picks = [] then
               Inr (s\<lparr>response := ''I couldn't find foods that improve your biggest gaps from the current list.''\<rparr>)
             else
               ebind (emap (rec_line rt) picks) (\<lambda>lines.
                 Inr (s\<lparr>response := join nl (''Recommendations (100g servings):'' # lines),
                        recommendations := map rec_of picks\<rparr>))))))))))"

section \<open>Validation (\<^verbatim>\<open>agents/evaluator_agent.py\<close>)\<close>

text \<open>\<^verbatim>\<open>grams.strip().lower().replace(" ", "")\<close>, then one trailing \<^verbatim>\<open>g\<close> removed.\<close>

definition normalize_grams :: "string \<Rightarrow> string" where
  "normalize_grams t =
     (let u = remove_spaces (py_lower (py_strip t)) in
      if endswith u ''g'' then butlast u else u)"

definition ask_grams :: "string \<Rightarrow> string \<Rightarrow> graph_state \<Rightarrow> graph_state" where
  "ask_grams resp q s = s\<lparr>needs_clarification := True, response := resp, questions := [q]\<rparr>"

text \<open>
  The second block of the validator, on the dictionary \<open>d\<close> that \<^verbatim>\<open>entities\<close> names at that
  point. When \<open>d\<close> has a \<^verbatim>\<open>grams\<close> entry it is the dictionary of the state itself, so the state
  \<open>s\<close> passed in already shows every assignment made to it.
\<close>

definition check_grams :: "runtime \<Rightarrow> (string \<times> pyval) list \<Rightarrow> graph_state \<Rightarrow> graph_state" where
  "check_grams rt d s =
     (if dict_get d ''grams'' \<noteq> PNone then
        (case py_float rt (dict_get d ''grams'') of
           Inl e \<Rightarrow> ask_grams ''I couldn't interpret the grams value.'' ''How many grams?'' s
         | Inr g \<Rightarrow>
             if fle g (Fin 0) then
               ask_grams ''The amount must be greater than 0g. How many grams?'' ''How many grams?'' s
             else if fless (Fin 5000) g then
               ask_grams ''That seems too large. Did you mean a smaller amount in grams?''
                         ''Please provide a reasonable grams amount (e.g., 50, 100, 200).'' s
             else s\<lparr>entities := PDict (dict_set d ''grams'' (PFloat g))\<rparr>)
      else s\<lparr>entities := PDict d\<rparr>)"

definition EvaluatorOptimizer_run :: "runtime \<Rightarrow> graph_state \<Rightarrow> error + graph_state" where
  "EvaluatorOptimizer_run rt s =
     (case or_empty_dict (entities s) of
        PDict d \<Rightarrow>
          (case dict_get d ''grams'' of
             PStr t \<Rightarrow>
               (case float_of_str rt (normalize_grams t) of
                  None \<Rightarrow> Inr (ask_grams ''I couldn't read the amount. How many grams?''
                                         ''How many grams?'' s)
                | Some f \<Rightarrow>
                    Inr (check_grams rt (dict_set d ''grams'' (PFloat f))
                           (s\<lparr>entities := PDict (dict_set d ''grams'' (PFloat f))\<rparr>)))
           | _ \<Rightarrow> Inr (check_grams rt d s))
      | _ \<Rightarrow> Inl AttributeError)"

section \<open>Clarification (\<^verbatim>\<open>agents/elicitation_agent.py\<close>)\<close>

definition elicit_questions :: "graph_state \<Rightarrow> error + string list" where
  "elicit_questions s =
     (let e = or_empty_dict (entities s) in
      if intent s = PStr ''log_meal'' then
        ebind (attr_get e ''food_id'') (\<lambda>food_id.
        ebind (attr_get e ''grams'') (\<lambda>grams.
        ebind (attr_get e ''meal_type'') (\<lambda>meal_type.
          Inr ((if \<not> truthy food_id \<and> selected_food s = None \<and> food_candidates s = []
                then [''Which food would you like to log? You can say a name or provide food_id.'']
                else [])
               @ (if \<not> truthy grams then [''How many grams?''] else [])
               @ (if \<not> truthy meal_type
                  then [''Which meal was this for (breakfast/lunch/dinner/snack)?'']
                  else [])))))
      else if intent s = PStr ''search_food'' then
        ebind (attr_get e ''food_name'') (\<lambda>food_name.
          Inr (if \<not> truthy food_name then [''What food would you like to search for?''] else []))
      else if intent s = PStr ''scan_barcode'' then
        ebind (attr_get e ''upc'') (\<lambda>upc.
          Inr (if \<not> truthy upc then [''Please provide the UPC (12 digits).''] else []))
      else if intent s = PStr ''daily_summary'' \<or> intent s = PStr ''recommend'' then
        ebind (attr_get e ''date'') (\<lambda>d.
          Inr (if \<not> truthy d then [''For which day? You can say 'today' or 'yesterday'.''] else []))
      else Inr [])"

definition ElicitationAgent_run :: "graph_state \<Rightarrow> error + graph_state" where
  "ElicitationAgent_run s =
     ebind (elicit_questions s) (\<lambda>qs.
       (let q = (case qs of
                   [] \<Rightarrow> ''Could you clarify your request with a bit more detail?''
                 | first # rest \<Rightarrow> first)
        in Inr (s\<lparr>needs_clarification := True, questions := [q], response := q\<rparr>)))"

section \<open>The graph (\<^verbatim>\<open>graph.py\<close>)\<close>

subsection \<open>The tool-calling loop of \<^verbatim>\<open>add_agent_tool_pipeline\<close>\<close>

text \<open>Whether \<^verbatim>\<open>llm_node\<close> puts the system prompt in front of the first message.\<close>

definition needs_system :: "msg list \<Rightarrow> bool" where
  "needs_system msgs =
     (case msgs of
        [] \<Rightarrow> True
      | DictMessage role content # rest \<Rightarrow> role \<noteq> ''system''
      | SystemMessage content # rest \<Rightarrow> False
      | m # rest \<Rightarrow> True)"

definition llm_node :: "(msg list \<Rightarrow> (string \<times> tool_call list) option) \<Rightarrow> string \<Rightarrow> graph_state \<Rightarrow> error + graph_state" where
  "llm_node bound prompt s =
     (let msgs1 = (if messages s = [] then [DictMessage ''user'' (input_text s)] else messages s);
          msgs2 = (if needs_system msgs1 then SystemMessage prompt # msgs1 else msgs1)
      in (case bound msgs2 of
            None \<Rightarrow> Inl CollaboratorError
          | Some (content, calls) \<Rightarrow>
              Inr (s\<lparr>messages := msgs2 @ [AIMessage content calls], response := content\<rparr>)))"

text \<open>
  \<^verbatim>\<open>tools_condition\<close> and \<^verbatim>\<open>ToolNode\<close> are the graph library's: the edge goes to the tools node
  when the last message is an assistant message that requests tool calls, and the tools node
  appends one tool message per requested call.
\<close>

definition pending_calls :: "graph_state \<Rightarrow> tool_call list" where
  "pending_calls s =
     (case rev (messages s) of
        AIMessage content calls # rest \<Rightarrow> calls
      | _ \<Rightarrow> [])"

definition tools_condition :: "graph_state \<Rightarrow> bool" where
  "tools_condition s = (pending_calls s \<noteq> [])"

definition tools_node :: "(tool_call \<Rightarrow> string) \<Rightarrow> graph_state \<Rightarrow> graph_state" where
  "tools_node run s = s\<lparr>messages := messages s @ map (\<lambda>c. ToolMessage (run c)) (pending_calls s)\<rparr>"

text \<open>
  The cycle \<^verbatim>\<open>llm_node \<rightarrow> tools_node \<rightarrow> llm_node\<close>, with fuel: the first argument bounds the
  number of model calls, and \<open>None\<close> says that the loop has not left the cycle within that
  many. The source has no such bound; the fuel only makes the function total.
\<close>

fun tool_loop :: "nat \<Rightarrow> (msg list \<Rightarrow> (string \<times> tool_call list) option) \<Rightarrow> (tool_call \<Rightarrow> string) \<Rightarrow> string \<Rightarrow> graph_state \<Rightarrow> (error + graph_state) option" where
  "tool_loop 0 bound run prompt s = None"
| "tool_loop (Suc n) bound run prompt s =
     (case llm_node bound prompt s of
        Inl e \<Rightarrow> Some (Inl e)
      | Inr s1 \<Rightarrow>
          if tools_condition s1 then tool_loop n bound run prompt (tools_node run s1)
          else Some (Inr s1))"

subsection \<open>Routing\<close>

definition route_by_intent :: "graph_state \<Rightarrow> pipeline option" where
  "route_by_intent s =
     (if intent s = PStr ''scan_barcode'' then None
      else if intent s = PStr ''search_food'' then Some SearchP
      else if intent s = PStr ''log_meal'' then Some LoggingP
      else if intent s = PStr ''daily_summary'' then Some AnalysisP
      else if intent s = PStr ''recommend'' then Some RecommendP
      else Some SearchP)"

definition post_func :: "runtime \<Rightarrow> collaborators \<Rightarrow> pipeline \<Rightarrow> graph_state \<Rightarrow> error + graph_state" where
  "post_func rt env p s =
     (case p of
        SearchP \<Rightarrow> FoodSearchAgent_run rt env s
      | LoggingP \<Rightarrow> LoggingAgent_run rt env s
      | AnalysisP \<Rightarrow> AnalysisAgent_run rt env s
      | RecommendP \<Rightarrow> RecommendationAgent_run rt env s)"

text \<open>
  One pipeline: without a model the route goes straight to the handler (\<^verbatim>\<open>prefix_post\<close>); with
  one it enters the loop at \<^verbatim>\<open>prefix_llm\<close> and reaches the handler when the loop is left.
\<close>

definition run_pipeline :: "nat \<Rightarrow> runtime \<Rightarrow> collaborators \<Rightarrow> pipeline \<Rightarrow> graph_state \<Rightarrow> (error + graph_state) option" where
  "run_pipeline fuel rt env p s =
     (case llm env of
        None \<Rightarrow> Some (post_func rt env p s)
      | Some m \<Rightarrow>
          (case tool_loop fuel (chat m p) (run_tool env p) (system_prompt env p) s of
             None \<Rightarrow> None
           | Some r \<Rightarrow> Some (ebind r (post_func rt env p))))"

text \<open>The edges after a handler: evaluator, then elicitation when clarification is needed.\<close>

definition needs_elicitation :: "graph_state \<Rightarrow> error + graph_state" where
  "needs_elicitation s = (if needs_clarification s then ElicitationAgent_run s else Inr s)"

definition evaluate_and_finish :: "runtime \<Rightarrow> graph_state \<Rightarrow> error + graph_state" where
  "evaluate_and_finish rt s = ebind (EvaluatorOptimizer_run rt s) needs_elicitation"

definition initial_state :: "int \<Rightarrow> string \<Rightarrow> graph_state" where
  "initial_state uid message =
     \<lparr>messages = [], user_id = uid, input_text = message, intent = PNone, entities = PDict [],
      food_candidates = [], selected_food = None, log_entry = None, day_data = None,
      day_totals = None, goals = PNone, recommendations = [], response = [],
      needs_clarification = False, questions = [], confidence = Fin 0\<rparr>"

definition run_graph :: "nat \<Rightarrow> runtime \<Rightarrow> collaborators \<Rightarrow> graph_state \<Rightarrow> (error + graph_state) option" where
  "run_graph fuel rt env s0 =
     (let s1 = OrchestratorAgent_run rt env s0 in
      case (case route_by_intent s1 of
              None \<Rightarrow> Some (BarcodeAgent_run rt env s1)
            | Some p \<Rightarrow> run_pipeline fuel rt env p s1) of
        None \<Rightarrow> None
      | Some r \<Rightarrow> Some (ebind r (evaluate_and_finish rt)))"

definition run_agent :: "nat \<Rightarrow> runtime \<Rightarrow> collaborators \<Rightarrow> int \<Rightarrow> string \<Rightarrow> (error + graph_state) option" where
  "run_agent fuel rt env uid message = run_graph fuel rt env (initial_state uid message)"

section \<open>A concrete runtime and concrete collaborators\<close>

text \<open>
  For the closed statements below: a runtime that agrees with CPython on the values those
  statements exercise (decimal integers, integer-valued floats, strings, two dates) and
  collaborators with one user, one food and no language model.
\<close>

fun show_nat :: "nat \<Rightarrow> string" where
  "show_nat n =
     (if n < 10 then [''0123456789'' ! n] else show_nat (n div 10) @ [''0123456789'' ! (n mod 10)])"

definition show_int :: "int \<Rightarrow> string" where
  "show_int i = (if i < 0 then ''-'' @ show_nat (nat (- i)) else show_nat (nat i))"

definition whole :: "pyval \<Rightarrow> int option" where
  "whole v =
     (case num_of v of
        Some (Fin r) \<Rightarrow> if r = of_int \<lfloor>r\<rfloor> then Some \<lfloor>r\<rfloor> else None
      | _ \<Rightarrow> None)"

definition exact :: "(real \<Rightarrow> real \<Rightarrow> real) \<Rightarrow> pyfloat \<Rightarrow> pyfloat \<Rightarrow> pyfloat" where
  "exact f a b = (case (a, b) of (Fin x, Fin y) \<Rightarrow> Fin (f x y) | _ \<Rightarrow> NaN)"

definition rt0 :: runtime where
  "rt0 =
     \<lparr>float_of_str = (\<lambda>t. if t \<noteq> [] \<and> list_all is_digit t \<and> length t \<le> 15
                            then Some (Fin (of_int (int_of_digits t))) else None),
      float_of_int = (\<lambda>i. if \<bar>i\<bar> \<le> 9007199254740992 then Some (Fin (of_int i)) else None),
      int_of_str = (\<lambda>t. if t \<noteq> [] \<and> list_all is_digit t then Some (int_of_digits t) else None),
      fmt_1f = (\<lambda>v. case whole v of Some i \<Rightarrow> Some (show_int i @ ''.0'') | None \<Rightarrow> None),
      str_of = (\<lambda>v. case v of
                       PStr t \<Rightarrow> t
                     | PNone \<Rightarrow> ''None''
                     | PBool b \<Rightarrow> (if b then ''True'' else ''False'')
                     | PInt i \<Rightarrow> show_int i
                     | _ \<Rightarrow> (case whole v of Some i \<Rightarrow> show_int i @ ''.0'' | None \<Rightarrow> [])),
      fadd = exact (+), fsub = exact (-), fmul = exact (*), fdiv = exact (/),
      fromisoformat = map_of [(''2025-08-09'', 739472), (''2025-08-08'', 739471)],
      isoformat = (\<lambda>d. if d = 739472 then ''2025-08-09'' else if d = 739471 then ''2025-08-08''
                         else [])\<rparr>"

definition day0 :: "string \<Rightarrow> pyfloat" where
  "day0 k =
     (if k = ''calories'' then Fin 500 else if k = ''protein_g'' then Fin 50
      else if k = ''zinc_mg'' then Fin 7 else Fin 0)"

definition env0 :: collaborators where
  "env0 =
     \<lparr>llm = None,
      system_prompt = (\<lambda>p. []),
      run_tool = (\<lambda>p c. []),
      db_lookup_upc = (\<lambda>upc. Some []),
      db_search_food = (\<lambda>q n. Some []),
      db_list_foods = (\<lambda>n. Some []),
      db_user_exists = (\<lambda>u. u = 1),
      db_food_name = (\<lambda>f. if f = 1 then Some (PStr ''Oats'') else None),
      db_insert_meal = (\<lambda>row. Inr (1, ''2025-08-09T12:00:00'')),
      db_day = (\<lambda>u d. Some (2, day0, [])),
      db_user_goals = (\<lambda>u. Some (PDict [(''protein_g'', PInt 100), (''calories'', PInt 400),
                                           (''fiber_g'', PInt 30)])),
      db_all_foods = Some [],
      today = 739472,
      tool_today = 739472\<rparr>"

section \<open>Notions used in the statements\<close>


definition keeps :: "graph_state \<Rightarrow> graph_state \<Rightarrow> bool" where
  "keeps s s' =
     (confidence s' = confidence s \<and> input_text s' = input_text s \<and>
      ((needs_clarification s' \<and> length (questions s') = 1) \<or>
       (needs_clarification s' = needs_clarification s \<and> questions s' = questions s)))"

definition in_unit_interval :: "pyfloat \<Rightarrow> bool" where
  "in_unit_interval f = (case f of Fin r \<Rightarrow> 0 \<le> r \<and> r \<le> 1 | _ \<Rightarrow> False)"








text \<open>
  Collaborators with a language model whose classification carries its own confidence, 1.5,
  and whose chat answers at once.
\<close>

definition env_llm :: collaborators where
  "env_llm =
     env0\<lparr>llm := Some \<lparr>classify = (\<lambda>p. Some (PDict [(''intent'', PStr ''search_food''),
                                                       (''entities'', PDict [(''food_name'', PStr ''oats'')]),
                                                       (''confidence'', PFloat (Fin (3/2)))])),
                        chat = (\<lambda>p msgs. Some (''Searching.'', []))\<rparr>\<rparr>"

text \<open>The state the heuristic produces for a message, with no model.\<close>

definition heuristic_state :: "string \<Rightarrow> graph_state" where
  "heuristic_state message = OrchestratorAgent_run rt0 env0 (initial_state 1 message)"



text \<open>A state whose only entity is \<^verbatim>\<open>grams\<close>, for the validator.\<close>

definition grams_state :: "pyval \<Rightarrow> graph_state" where
  "grams_state v = (initial_state 1 [])\<lparr>intent := PStr ''log_meal'', entities := PDict [(''grams'', v)]\<rparr>"


section \<open>What each node does to the clarification fields\<close>


lemma keeps_refl: "keeps s s"
  by (simp add: keeps_def)

lemma keeps_trans: "keeps s s' \<Longrightarrow> keeps s' s'' \<Longrightarrow> keeps s s''"
  by (auto simp: keeps_def)

lemma barcode_keeps: "BarcodeAgent_run rt env s = Inr s' \<Longrightarrow> keeps s s'"
  by (auto simp: BarcodeAgent_run_def keeps_def ebind_def split: sum.splits if_splits list.splits)

lemma search_keeps: "FoodSearchAgent_run rt env s = Inr s' \<Longrightarrow> keeps s s'"
  by (auto simp: FoodSearchAgent_run_def keeps_def ebind_def split: sum.splits if_splits list.splits)

lemma log_selected_keeps: "log_selected rt env s f = Inr s' \<Longrightarrow> keeps s s'"
  by (auto simp: log_selected_def keeps_def ebind_def split: sum.splits if_splits log_result.splits)

lemma logging_keeps: "LoggingAgent_run rt env s = Inr s' \<Longrightarrow> keeps s s'"
  by (auto simp: LoggingAgent_run_def ebind_def
           split: sum.splits if_splits log_result.splits option.splits list.splits
           dest: log_selected_keeps)
     (auto simp: keeps_def)

lemma analysis_keeps: "AnalysisAgent_run rt env s = Inr s' \<Longrightarrow> keeps s s'"
  by (auto simp: AnalysisAgent_run_def keeps_def ebind_def split: sum.splits)

lemma recommend_keeps: "RecommendationAgent_run rt env s = Inr s' \<Longrightarrow> keeps s s'"
  by (auto simp: RecommendationAgent_run_def keeps_def ebind_def Let_def split: sum.splits if_splits)

lemma post_keeps: "post_func rt env p s = Inr s' \<Longrightarrow> keeps s s'"
  by (cases p) (auto simp: post_func_def dest: search_keeps logging_keeps analysis_keeps recommend_keeps)

lemma evaluator_keeps: "EvaluatorOptimizer_run rt s = Inr s' \<Longrightarrow> keeps s s'"
  by (auto simp: EvaluatorOptimizer_run_def check_grams_def ask_grams_def keeps_def
           split: sum.splits if_splits pyval.splits option.splits)

lemma elicitation_result:
  "ElicitationAgent_run s = Inr s' \<Longrightarrow>
     needs_clarification s' \<and> questions s' = [response s'] \<and> confidence s' = confidence s
     \<and> input_text s' = input_text s"
  by (auto simp: ElicitationAgent_run_def ebind_def Let_def split: sum.splits)

lemma llm_node_keeps: "llm_node bound prompt s = Inr s' \<Longrightarrow> keeps s s'"
  by (auto simp: llm_node_def keeps_def Let_def split: option.splits)

lemma tools_node_keeps: "keeps s (tools_node run s)"
  by (simp add: tools_node_def keeps_def)

lemma tool_loop_keeps: "tool_loop n bound run prompt s = Some (Inr s') \<Longrightarrow> keeps s s'"
proof (induction n arbitrary: s)
  case 0
  then show ?case by simp
next
  case (Suc n)
  then obtain s1 where s1: "llm_node bound prompt s = Inr s1"
    by (auto split: sum.splits)
  show ?case
  proof (cases "tools_condition s1")
    case True
    then have "tool_loop n bound run prompt (tools_node run s1) = Some (Inr s')"
      using Suc.prems s1 by simp
    then have "keeps (tools_node run s1) s'" by (rule Suc.IH)
    then show ?thesis
      using llm_node_keeps[OF s1] tools_node_keeps[of s1 run] keeps_trans by blast
  next
    case False
    then have "s' = s1" using Suc.prems s1 by simp
    then show ?thesis using llm_node_keeps[OF s1] by simp
  qed
qed

lemma pipeline_keeps: "run_pipeline fuel rt env p s = Some (Inr s') \<Longrightarrow> keeps s s'"
  by (auto simp: run_pipeline_def ebind_def split: option.splits sum.splits
           dest: post_keeps tool_loop_keeps keeps_trans)

lemma heuristic_fields:
  "needs_clarification (heuristic_intent rt s) = needs_clarification s
   \<and> questions (heuristic_intent rt s) = questions s
   \<and> input_text (heuristic_intent rt s) = input_text s
   \<and> confidence (heuristic_intent rt s) = Fin (1/2)"
  by (simp add: heuristic_intent_def Let_def)



text \<open>
  A finished turn, taken apart: the state after the orchestrator, after the handler and after
  the validator.
\<close>

lemma run_agent_stages:
  assumes "run_agent fuel rt env uid message = Some (Inr s)"
  obtains s2 s3 where
    "keeps (OrchestratorAgent_run rt env (initial_state uid message)) s2"
    "EvaluatorOptimizer_run rt s2 = Inr s3"
    "needs_elicitation s3 = Inr s"
proof -
  let ?s1 = "OrchestratorAgent_run rt env (initial_state uid message)"
  from assms obtain r where
    r: "(case route_by_intent ?s1 of None \<Rightarrow> Some (BarcodeAgent_run rt env ?s1)
          | Some p \<Rightarrow> run_pipeline fuel rt env p ?s1) = Some r"
    and fin: "ebind r (evaluate_and_finish rt) = Inr s"
    by (auto simp: run_agent_def run_graph_def Let_def split: option.splits)
  from fin obtain s2 where s2: "r = Inr s2" and e: "evaluate_and_finish rt s2 = Inr s"
    by (auto simp: ebind_def split: sum.splits)
  from e obtain s3 where s3: "EvaluatorOptimizer_run rt s2 = Inr s3" "needs_elicitation s3 = Inr s"
    by (auto simp: evaluate_and_finish_def ebind_def split: sum.splits)
  have "keeps ?s1 s2"
    using r s2 by (auto split: option.splits dest: barcode_keeps pipeline_keeps)
  then show ?thesis using s3 that by blast
qed


section \<open>Dictionaries\<close>

lemma dict_get_set: "dict_get (dict_set d k v) k = v"
  by (induction d) (auto simp: dict_get_def)

lemma dict_set_idem: "dict_set (dict_set d k v) k v = dict_set d k v"
  by (induction d) auto

lemma dict_set_nonempty: "dict_set d k v \<noteq> []"
  by (cases d) (auto split: if_splits)

lemma or_empty_dict_set: "or_empty_dict (PDict (dict_set d k v)) = PDict (dict_set d k v)"
  by (simp add: or_empty_dict_def dict_set_nonempty)

lemma or_empty_dict_dict: "or_empty_dict (PDict d) = PDict d"
  by (cases d) (simp_all add: or_empty_dict_def)

lemma or_empty_dict_twice: "or_empty_dict x = PDict d \<Longrightarrow> or_empty_dict (PDict d) = PDict d"
  by (rule or_empty_dict_dict)

section \<open>The validator on its own output\<close>

lemma ask_grams_fields:
  "entities (ask_grams r q s) = entities s" "needs_clarification (ask_grams r q s)"
  "questions (ask_grams r q s) = [q]" "ask_grams r q (ask_grams r q s) = ask_grams r q s"
  by (simp_all add: ask_grams_def)

lemma check_grams_fixed:
  assumes "or_empty_dict (entities s) = PDict d" and "\<forall>t. dict_get d ''grams'' \<noteq> PStr t"
  shows "EvaluatorOptimizer_run rt (check_grams rt d s) = Inr (check_grams rt d s)"
proof (cases "dict_get d ''grams'' = PNone")
  case True
  then have c: "check_grams rt d s = s\<lparr>entities := PDict d\<rparr>" by (simp add: check_grams_def)
  show ?thesis
    unfolding c using True
    by (simp add: EvaluatorOptimizer_run_def or_empty_dict_dict check_grams_def)
next
  case False
  show ?thesis
  proof (cases "py_float rt (dict_get d ''grams'')")
    case (Inl e)
    then have c: "check_grams rt d s = ask_grams ''I couldn't interpret the grams value.'' ''How many grams?'' s"
      using False by (simp add: check_grams_def)
    show ?thesis
      unfolding c using False Inl assms
      by (auto simp: EvaluatorOptimizer_run_def ask_grams_fields check_grams_def split: pyval.splits)
  next
    case (Inr g)
    consider (low) "fle g (Fin 0)" | (high) "\<not> fle g (Fin 0)" "fless (Fin 5000) g"
      | (ok) "\<not> fle g (Fin 0)" "\<not> fless (Fin 5000) g" by blast
    then show ?thesis
    proof cases
      case low
      then have c: "check_grams rt d s = ask_grams ''The amount must be greater than 0g. How many grams?'' ''How many grams?'' s"
        using False Inr by (simp add: check_grams_def)
      show ?thesis
        unfolding c using False Inr low assms
        by (auto simp: EvaluatorOptimizer_run_def ask_grams_fields check_grams_def split: pyval.splits)
    next
      case high
      then have c: "check_grams rt d s = ask_grams ''That seems too large. Did you mean a smaller amount in grams?''
                         ''Please provide a reasonable grams amount (e.g., 50, 100, 200).'' s"
        using False Inr by (simp add: check_grams_def)
      show ?thesis
        unfolding c using False Inr high assms
        by (auto simp: EvaluatorOptimizer_run_def ask_grams_fields check_grams_def split: pyval.splits)
    next
      case ok
      then have c: "check_grams rt d s = s\<lparr>entities := PDict (dict_set d ''grams'' (PFloat g))\<rparr>"
        using False Inr by (simp add: check_grams_def)
      show ?thesis
        unfolding c using ok
        by (simp add: EvaluatorOptimizer_run_def or_empty_dict_set dict_get_set check_grams_def dict_set_idem)
    qed
  qed
qed

lemma validator_fixed:
  assumes "EvaluatorOptimizer_run rt s = Inr s'"
  shows "EvaluatorOptimizer_run rt s' = Inr s'"
proof -
  from assms obtain d where d: "or_empty_dict (entities s) = PDict d"
    by (auto simp: EvaluatorOptimizer_run_def split: pyval.splits)
  show ?thesis
  proof (cases "\<exists>t. dict_get d ''grams'' = PStr t")
    case False
    then have "s' = check_grams rt d s"
      using assms d by (auto simp: EvaluatorOptimizer_run_def split: pyval.splits)
    then show ?thesis using check_grams_fixed[OF d] False by simp
  next
    case True
    then obtain t where t: "dict_get d ''grams'' = PStr t" by blast
    show ?thesis
    proof (cases "float_of_str rt (normalize_grams t)")
      case None
      then have "s' = ask_grams ''I couldn't read the amount. How many grams?'' ''How many grams?'' s"
        using assms d t by (simp add: EvaluatorOptimizer_run_def)
      then show ?thesis
        using d t None by (simp add: EvaluatorOptimizer_run_def ask_grams_fields)
    next
      case (Some f)
      let ?d1 = "dict_set d ''grams'' (PFloat f)"
      have "s' = check_grams rt ?d1 (s\<lparr>entities := PDict ?d1\<rparr>)"
        using assms d t Some by (simp add: EvaluatorOptimizer_run_def)
      moreover have "or_empty_dict (entities (s\<lparr>entities := PDict ?d1\<rparr>)) = PDict ?d1"
        by (simp add: or_empty_dict_set)
      moreover have "\<forall>t. dict_get ?d1 ''grams'' \<noteq> PStr t" by (simp add: dict_get_set)
      ultimately show ?thesis using check_grams_fixed by blast
    qed
  qed
qed

section \<open>C1: the tool-calling loop\<close>






section \<open>C2: clarification and the number of questions\<close>



section \<open>C3: a barcode that is not found\<close>

text \<open>
  C3 says that a \<^verbatim>\<open>scan_barcode\<close> turn whose UPC is present but unknown ends with a question
  and a response that offer a search by name. The Barcode handler writes exactly that, but
  the turn then passes through the clarification step, whose table for \<^verbatim>\<open>scan_barcode\<close> only
  knows the case of a missing UPC: it falls through to the generic question and overwrites
  both fields. For the message \<^verbatim>\<open>scan 012345678905\<close> with no matching food: what the handler
  returns, and how the turn ends.
\<close>

theorem barcode_miss_ends_with_generic_question:
  "map_sum id (\<lambda>s. (needs_clarification s, questions s, response s))
     (BarcodeAgent_run rt0 env0 (heuristic_state ''scan 012345678905''))
     = Inr (True, [''Would you like to search by name instead?''],
            ''No food found with UPC 012345678905. Would you like to search by name instead?'')
   \<and> map_option (map_sum id (\<lambda>s. (intent s, needs_clarification s, questions s, response s)))
       (run_agent 0 rt0 env0 1 ''scan 012345678905'')
     = Some (Inr (PStr ''scan_barcode'', True,
                  [''Could you clarify your request with a bit more detail?''],
                  ''Could you clarify your request with a bit more detail?''))"
  by code_simp

section \<open>C4: the date of a recommendation\<close>

text \<open>
  C4 says that the Recommendation handler resolves the date as the Analysis handler does.
  It does so only for an absent date and for an explicit calendar date. The words \<^verbatim>\<open>today\<close>,
  \<^verbatim>\<open>now\<close> and \<^verbatim>\<open>yesterday\<close>, which the Analysis handler resolves itself, are passed on as they
  are, and \<^verbatim>\<open>tool_compute_day\<close> fails to parse them. The heuristic sets the date of every
  \<^verbatim>\<open>recommend\<close> turn to \<^verbatim>\<open>today\<close> unless the message says \<^verbatim>\<open>yesterday\<close>, so such a turn raises
  (here with \<^verbatim>\<open>datetime.fromisoformat\<close> rejecting the word, as CPython does), while the same
  date entity gives a summary in a \<^verbatim>\<open>daily_summary\<close> turn.
\<close>

theorem recommendation_does_not_resolve_relative_dates:
  "analysis_date_iso rt0 env0 (PStr ''today'') = PNone
   \<and> recommend_date_iso rt0 env0 (PStr ''today'') = PStr ''today''
   \<and> analysis_date_iso rt0 env0 (PStr ''yesterday'') = PStr ''2025-08-08''
   \<and> recommend_date_iso rt0 env0 (PStr ''yesterday'') = PStr ''yesterday''
   \<and> attr_get (entities (heuristic_state ''recommend something'')) ''date'' = Inr (PStr ''today'')
   \<and> run_agent 0 rt0 env0 1 ''recommend something'' = Some (Inl ValueError)
   \<and> attr_get (entities (heuristic_state ''summary'')) ''date'' = Inr (PStr ''today'')
   \<and> map_option (map_sum id (\<lambda>s. startswith (response s) ''Daily Summary for 2025-08-09:''))
        (run_agent 0 rt0 env0 1 ''summary'') = Some (Inr True)"
  by code_simp

section \<open>C5: the validator's rules for grams\<close>








section \<open>C6: the response of the daily summary\<close>








section \<open>C7: the default meal type\<close>

lemma meal_type_default:
  assumes "dict_get d ''meal_type'' = PNone"
  shows "column_defaults \<lparr>mr_user_id = u, mr_food_id = f, mr_grams = g,
            mr_meal_type = dict_get_default d ''meal_type'' (PStr ''snack''), mr_notes = PNone\<rparr>
         = \<lparr>mr_user_id = u, mr_food_id = f, mr_grams = g,
            mr_meal_type = PStr ''snack'', mr_notes = PNone\<rparr>"
  using assms
  by (auto simp: column_defaults_def dict_get_def dict_get_default_def split: option.splits)

text \<open>
  C7: when the entities of a \<^verbatim>\<open>log_meal\<close> turn hold a food id and a grams value and no meal
  type (the key is absent, or present with the value \<^verbatim>\<open>None\<close>, as the heuristic and a model
  that follows the prompt leave it), the Logging handler logs at once, without asking, and
  the row it stores has meal type \<^verbatim>\<open>snack\<close>. With the key absent the handler's own default
  supplies the value; with \<^verbatim>\<open>None\<close> the handler passes \<^verbatim>\<open>None\<close> on and the column default of
  \<^verbatim>\<open>MealLog.meal_type\<close> supplies it. The hypotheses say that logging can succeed: the two
  values convert, user and food exist, and the storage accepts the row.
\<close>

theorem logging_defaults_to_snack:
  assumes "entities s = PDict d"
      and "truthy (dict_get d ''food_id'')"
      and "truthy (dict_get d ''grams'')"
      and "dict_get d ''meal_type'' = PNone"
      and "py_int rt (dict_get d ''food_id'') = Inr fid"
      and "py_float rt (dict_get d ''grams'') = Inr g"
      and "db_user_exists env (user_id s)"
      and "db_food_name env fid = Some name"
      and "db_insert_meal env \<lparr>mr_user_id = user_id s, mr_food_id = fid, mr_grams = PFloat g,
                                mr_meal_type = PStr ''snack'', mr_notes = PNone\<rparr> = Inr (rid, ts)"
  shows "LoggingAgent_run rt env s =
           Inr (s\<lparr>log_entry := Some \<lparr>me_id = rid, me_user_id = user_id s, me_food_id = fid,
                                      me_food_name = name, me_grams = PFloat g,
                                      me_meal_type = PStr ''snack'', me_logged_at = ts\<rparr>,
                  response := ''Logged '' @ str_of rt (PFloat g) @ ''g of '' @ str_of rt name
                              @ '' ('' @ str_of rt (PStr ''snack'') @ '').''\<rparr>)"
proof -
  have "tool_log_meal env (user_id s) fid (PFloat g) (dict_get_default d ''meal_type'' (PStr ''snack''))
          = Logged \<lparr>me_id = rid, me_user_id = user_id s, me_food_id = fid,
                    me_food_name = name, me_grams = PFloat g,
                    me_meal_type = PStr ''snack'', me_logged_at = ts\<rparr>"
    using assms(7,8,9) by (simp add: tool_log_meal_def Let_def meal_type_default[OF assms(4)])
  then show ?thesis
    using assms(1,2,3,5,6)
    by (simp add: LoggingAgent_run_def attr_get_def attr_get_default_def ebind_def)
qed

text \<open>
  An instance: the message \<^verbatim>\<open>log 100g food_id=1\<close> on the heuristic path, where the entity
  \<^verbatim>\<open>meal_type\<close> is present with value \<^verbatim>\<open>None\<close>.
\<close>

theorem logging_defaults_to_snack_witness:
  "LoggingAgent_run rt0 env0 (heuristic_state ''log 100g food_id=1'') =
     Inr ((heuristic_state ''log 100g food_id=1'')
            \<lparr>log_entry := Some \<lparr>me_id = 1, me_user_id = 1, me_food_id = 1,
                                 me_food_name = PStr ''Oats'', me_grams = PFloat (Fin 100),
                                 me_meal_type = PStr ''snack'',
                                 me_logged_at = ''2025-08-09T12:00:00''\<rparr>,
             response := ''Logged 100.0g of Oats (snack).''\<rparr>)
   \<and> attr_get (entities (heuristic_state ''log 100g food_id=1'')) ''meal_type'' = Inr PNone"
proof -
  let ?s = "heuristic_state ''log 100g food_id=1''"
  let ?d = "[(''food_name'', PNone), (''grams'', PFloat (Fin 100)), (''upc'', PNone),
             (''meal_type'', PNone), (''date'', PNone), (''food_id'', PInt 1)]"
  have e: "entities ?s = PDict ?d" by code_simp
  have u: "user_id ?s = 1" by code_simp
  have 1: "truthy (dict_get ?d ''food_id'')" by code_simp
  have 2: "truthy (dict_get ?d ''grams'')" by code_simp
  have 3: "dict_get ?d ''meal_type'' = PNone" by code_simp
  have 4: "py_int rt0 (dict_get ?d ''food_id'') = Inr 1" by code_simp
  have 5: "py_float rt0 (dict_get ?d ''grams'') = Inr (Fin 100)" by code_simp
  have 6: "db_user_exists env0 (user_id ?s)" unfolding u by code_simp
  have 7: "db_food_name env0 1 = Some (PStr ''Oats'')" by code_simp
  have 8: "db_insert_meal env0 \<lparr>mr_user_id = user_id ?s, mr_food_id = 1, mr_grams = PFloat (Fin 100),
                                mr_meal_type = PStr ''snack'', mr_notes = PNone\<rparr>
             = Inr (1, ''2025-08-09T12:00:00'')"
    by (simp add: env0_def)
  have r: "''Logged '' @ str_of rt0 (PFloat (Fin 100)) @ ''g of '' @ str_of rt0 (PStr ''Oats'')
             @ '' ('' @ str_of rt0 (PStr ''snack'') @ '').'' = ''Logged 100.0g of Oats (snack).''"
    by code_simp
  have "attr_get (entities ?s) ''meal_type'' = Inr PNone"
    unfolding e by code_simp
  moreover note logging_defaults_to_snack[OF e 1 2 3 4 5 6 7 8, unfolded r u]
  ultimately show ?thesis by (rule_tac conjI)
qed

section \<open>C8: the confidence of a turn\<close>

lemma orchestrator_confidence:
  "confidence (OrchestratorAgent_run rt env s) =
     (case llm env of
        None \<Rightarrow> Fin (1/2)
      | Some m \<Rightarrow>
          (case classify m (build_prompt (input_text s)) of
             Some (PDict r) \<Rightarrow>
               (case py_float rt (dict_get_default r ''confidence'' (PFloat (Fin (7/10)))) of
                  Inr f \<Rightarrow> f
                | Inl e \<Rightarrow> Fin (1/2))
           | _ \<Rightarrow> Fin (1/2)))"
  by (auto simp: OrchestratorAgent_run_def heuristic_fields llm_intent_def ebind_def raising_def
        attr_get_def attr_get_default_def
        split: option.splits sum.splits pyval.splits)

text \<open>
  C8, as stated: the confidence of the final state lies in [0, 1] for every reply of the
  classification collaborator. This fails when the model supplies its own value outside the
  interval: with the reply \<^verbatim>\<open>{"intent": "search_food", "entities": {"food_name": "oats"},
  "confidence": 1.5}\<close> the turn ends with confidence 1.5.
\<close>

theorem confidence_outside_unit_interval:
  "\<exists>s. run_agent 1 rt0 env_llm 1 ''find oats'' = Some (Inr s) \<and> confidence s = Fin (3/2)
       \<and> \<not> in_unit_interval (confidence s)"
proof -
  have "case run_agent 1 rt0 env_llm 1 ''find oats'' of
          Some (Inr s) \<Rightarrow> confidence s = Fin (3/2) | _ \<Rightarrow> False"
    by code_simp
  then show ?thesis
    by (auto simp: in_unit_interval_def split: option.splits sum.splits)
qed

text \<open>
  C8, amended: the confidence of the final state is 0.5 on the heuristic fallback (no model,
  a call or a parse that raises, a reply that is not an object, a confidence that does not
  convert), 0.7 when the model's reply carries no confidence, and otherwise the float of the
  model's own value, unclamped: it lies in [0, 1] exactly when that value does.
\<close>

theorem turn_confidence:
  assumes "run_agent fuel rt env uid message = Some (Inr s)"
  shows "confidence s =
     (case llm env of
        None \<Rightarrow> Fin (1/2)
      | Some m \<Rightarrow>
          (case classify m (build_prompt message) of
             Some (PDict r) \<Rightarrow>
               (case py_float rt (dict_get_default r ''confidence'' (PFloat (Fin (7/10)))) of
                  Inr f \<Rightarrow> f
                | Inl e \<Rightarrow> Fin (1/2))
           | _ \<Rightarrow> Fin (1/2)))"
proof -
  from assms obtain s2 s3 where
    k: "keeps (OrchestratorAgent_run rt env (initial_state uid message)) s2"
    and e: "EvaluatorOptimizer_run rt s2 = Inr s3"
    and f: "needs_elicitation s3 = Inr s"
    by (rule run_agent_stages)
  have "confidence s = confidence s3"
    using f elicitation_result by (auto simp: needs_elicitation_def split: if_splits)
  also have "\<dots> = confidence s2" using evaluator_keeps[OF e] by (simp add: keeps_def)
  also have "\<dots> = confidence (OrchestratorAgent_run rt env (initial_state uid message))"
    using k by (simp add: keeps_def)
  finally have "confidence s = confidence (OrchestratorAgent_run rt env (initial_state uid message))" .
  moreover have "input_text (initial_state uid message) = message"
    by (simp add: initial_state_def)
  ultimately show ?thesis
    by (simp only: orchestrator_confidence)
qed

theorem turn_confidence_witness:
  "(\<exists>s. run_agent 0 rt0 env0 1 ''search oats'' = Some (Inr s) \<and> confidence s = Fin (1/2))
   \<and> (\<exists>s. run_agent 1 rt0 env_llm 1 ''find oats'' = Some (Inr s) \<and> confidence s = Fin (3/2))"
proof -
  have "case run_agent 0 rt0 env0 1 ''search oats'' of Some (Inr s) \<Rightarrow> True | _ \<Rightarrow> False"
    by code_simp
  then obtain s where s: "run_agent 0 rt0 env0 1 ''search oats'' = Some (Inr s)"
    by (auto split: option.splits sum.splits)
  have "case run_agent 1 rt0 env_llm 1 ''find oats'' of Some (Inr s) \<Rightarrow> True | _ \<Rightarrow> False"
    by code_simp
  then obtain t where t: "run_agent 1 rt0 env_llm 1 ''find oats'' = Some (Inr t)"
    by (auto split: option.splits sum.splits)
  have "confidence s = Fin (1/2)"
    using turn_confidence[OF s] by (simp add: env0_def)
  moreover have "confidence t = Fin (3/2)"
    using turn_confidence[OF t]
    by (simp add: env_llm_def env0_def rt0_def dict_get_default_def)
  ultimately show ?thesis using s t by blast
qed

section \<open>C9: the validator is idempotent\<close>

text \<open>
  C9: applying the validator to its own result gives that result again, all fields included;
  when the first application raises (the entities are a non-empty value that is not a
  dictionary) so does the composition.
\<close>

theorem validator_idempotent:
  "ebind (EvaluatorOptimizer_run rt s) (EvaluatorOptimizer_run rt) = EvaluatorOptimizer_run rt s"
  by (cases "EvaluatorOptimizer_run rt s") (simp_all add: ebind_def validator_fixed)

text \<open>An instance: the textual amount \<^verbatim>\<open>" 100 G "\<close> is normalised once and then stays.\<close>

theorem validator_idempotent_witness:
  "ebind (EvaluatorOptimizer_run rt0 (grams_state (PStr '' 100 G ''))) (EvaluatorOptimizer_run rt0)
     = Inr (grams_state (PFloat (Fin 100)))"
proof -
  have "EvaluatorOptimizer_run rt0 (grams_state (PStr '' 100 G '')) = Inr (grams_state (PFloat (Fin 100)))"
    by code_simp
  then show ?thesis using validator_idempotent[of rt0 "grams_state (PStr '' 100 G '')"] by simp
qed

section \<open>C10: the response of a clarification turn\<close>



end
